theory Spec2Isabelle
  imports Complex_Main "HOL-Library.AList"
begin

section \<open>Python values and exceptions\<close>

text \<open>
  The repository raises only \<^verbatim>\<open>ValueError\<close> itself; the other exception classes are the
  ones the interpreter raises for the operations the code performs (indexing an empty
  sequence, comparing \<^verbatim>\<open>None\<close> with a float, a missing dictionary key) and the one
  \<^verbatim>\<open>st.stop()\<close> uses to end a script run. An exception is a value: every function that
  can raise returns \<open>error + 'a\<close> with \<open>Inl\<close> for the exception.
\<close>

datatype message =
    NoMessage                \<comment> \<open>\<^verbatim>\<open>raise ValueError()\<close> in \<^verbatim>\<open>HoldoutPctSplitter.__init__\<close>\<close>
  | HorizonMessage int       \<comment> \<open>\<^verbatim>\<open>f"Horizon must be >= 1, got {horizon}"\<close>\<close>
  | NotFittedMessage         \<comment> \<open>\<^verbatim>\<open>"Model must be fitted before prediction"\<close>\<close>
  | EmptySequenceMessage     \<comment> \<open>\<^verbatim>\<open>min()\<close> or \<^verbatim>\<open>max()\<close> of an empty sequence\<close>
  | LengthMessage            \<comment> \<open>a \<^verbatim>\<open>DataFrame\<close> whose column and index differ in length\<close>

datatype error =
    ValueError message
  | TypeError
  | KeyError string
  | IndexError
  | LibraryError string      \<comment> \<open>an exception raised inside a third-party fitting routine\<close>
  | StopException            \<comment> \<open>raised by \<^verbatim>\<open>st.stop()\<close>\<close>

text \<open>
  The specification names failures by kind. The repository has no exception classes of
  its own, so the kind of a failure is read off the raise statement it comes from.
\<close>

datatype failure = InvalidConfiguration | NotFittedError | TrainingFailure | OtherFailure

fun failure_of :: "error \<Rightarrow> failure" where
  "failure_of (ValueError NoMessage) = InvalidConfiguration"
| "failure_of (ValueError (HorizonMessage h)) = InvalidConfiguration"
| "failure_of (ValueError NotFittedMessage) = NotFittedError"
| "failure_of (LibraryError s) = TrainingFailure"
| "failure_of e = OtherFailure"

text \<open>
  A float as far as the code inspects it: \<^verbatim>\<open>calculate_metrics\<close> asks only whether a
  metric value is NaN or infinite, and the leaderboard compares and subtracts values
  that are finite.
\<close>

datatype pyfloat = Finite real | NaN | PosInf | NegInf

fun isnan :: "pyfloat \<Rightarrow> bool" where
  "isnan NaN = True"
| "isnan v = False"

fun isinf :: "pyfloat \<Rightarrow> bool" where
  "isinf PosInf = True"
| "isinf NegInf = True"
| "isinf v = False"

text \<open>
  A dictionary is an association list in insertion order with distinct keys;
  \<^const>\<open>AList.update\<close> is \<^verbatim>\<open>d[k] = v\<close> (an existing key keeps its place, a new one is
  appended) and \<^const>\<open>map_of\<close> is the lookup.
\<close>

type_synonym ('k, 'v) dict = "('k \<times> 'v) list"

definition getitem :: "(string, 'v) dict \<Rightarrow> string \<Rightarrow> error + 'v" where
  "getitem d k = (case map_of d k of None \<Rightarrow> Inl (KeyError k) | Some v \<Rightarrow> Inr v)"

text \<open>\<^verbatim>\<open>str.lower()\<close> on ASCII text.\<close>

definition lower_char :: "char \<Rightarrow> char" where
  "lower_char c =
     (case map_of (zip ''ABCDEFGHIJKLMNOPQRSTUVWXYZ'' ''abcdefghijklmnopqrstuvwxyz'') c of
        Some l \<Rightarrow> l
      | None \<Rightarrow> c)"

definition lower :: "string \<Rightarrow> string" where
  "lower s = map lower_char s"

text \<open>
  \<^verbatim>\<open>int(a / b)\<close> on integers: true division, then truncation towards zero. The
  quotient of two integers is computed exactly here; the double that Python computes
  truncates to the same integer as long as \<open>\<bar>a\<bar> / \<bar>b\<bar>\<close> stays below \<open>2^53 / b\<close>, far above
  any series length times a percentage.
\<close>

definition py_int_truediv :: "int \<Rightarrow> int \<Rightarrow> int" where
  "py_int_truediv a b =
     (if (a < 0) = (b < 0) then \<bar>a\<bar> div \<bar>b\<bar> else - (\<bar>a\<bar> div \<bar>b\<bar>))"

text \<open>
  A time series is a \<^verbatim>\<open>DataFrame\<close> with a \<^verbatim>\<open>DatetimeIndex\<close> and one column
  \<^verbatim>\<open>value\<close>: the list of its rows (timestamp, value), timestamps as integers
  (nanoseconds, as pandas stores them). \<^verbatim>\<open>df.iloc[:k]\<close> and \<^verbatim>\<open>df.iloc[k:]\<close> are slices;
  a negative bound counts from the end and every bound is clipped to the length.
\<close>

type_synonym 'v frame = "(int \<times> 'v) list"

definition slice_bound :: "int \<Rightarrow> nat \<Rightarrow> nat" where
  "slice_bound k n = (if k < 0 then nat (max 0 (int n + k)) else min (nat k) n)"

definition iloc_to :: "'a list \<Rightarrow> int \<Rightarrow> 'a list" where
  "iloc_to xs k = take (slice_bound k (length xs)) xs"

definition iloc_from :: "'a list \<Rightarrow> int \<Rightarrow> 'a list" where
  "iloc_from xs k = drop (slice_bound k (length xs)) xs"

definition index :: "'v frame \<Rightarrow> int list" where
  "index df = map fst df"

definition column_value :: "'v frame \<Rightarrow> 'v list" where
  "column_value df = map snd df"

section \<open>The percentage-holdout splitter\<close>

record HoldoutPctSplitter =
  train_pct :: int

definition HoldoutPctSplitter_init :: "int \<Rightarrow> error + HoldoutPctSplitter" where
  "HoldoutPctSplitter_init pct =
     (if \<not> (0 < pct \<and> pct < 100) then Inl (ValueError NoMessage)
      else Inr \<lparr>train_pct = pct\<rparr>)"

definition split_idx :: "HoldoutPctSplitter \<Rightarrow> nat \<Rightarrow> int" where
  "split_idx self n =
     max 1 (min (int n - 1) (py_int_truediv (int n * train_pct self) 100))"

definition HoldoutPctSplitter_split :: "HoldoutPctSplitter \<Rightarrow> 'a list \<Rightarrow> 'a list \<times> 'a list" where
  "HoldoutPctSplitter_split self data =
     (let n = length data;
          k = split_idx self n;
          train = iloc_to data k;
          test = iloc_from data k
      in (train, test))"

text \<open>
  The formula of the specification, for comparison with \<^const>\<open>split_idx\<close>: the
  quotient is rounded to the nearest integer before it is clamped.
\<close>

definition spec_round_split_idx :: "nat \<Rightarrow> int \<Rightarrow> int" where
  "spec_round_split_idx n pct =
     max 1 (min (int n - 1) (round (real_of_int (int n * pct) / 100)))"

section \<open>Metrics\<close>

text \<open>
  A metric function takes the actual and the predicted values and returns a float or
  raises. \<^verbatim>\<open>calculate_metrics\<close> runs the dictionary of metric functions in order; the
  handler \<^verbatim>\<open>except Exception\<close> turns every exception of one iteration into the entry
  \<^verbatim>\<open>None\<close>, written \<open>None\<close> here, with \<open>Some x\<close> for the float \<open>x\<close>.
\<close>

type_synonym 'v metric_function = "'v list \<Rightarrow> 'v list \<Rightarrow> error + pyfloat"

definition metric_entry :: "'v metric_function \<Rightarrow> 'v list \<Rightarrow> 'v list \<Rightarrow> pyfloat option" where
  "metric_entry func actual predicted =
     (case func actual predicted of
        Inl e \<Rightarrow> None
      | Inr v \<Rightarrow> if isnan v \<or> isinf v then None else Some v)"

fun calculate_metrics_loop ::
  "'v list \<Rightarrow> 'v list \<Rightarrow> (string, 'v metric_function) dict \<Rightarrow> (string, pyfloat option) dict
     \<Rightarrow> (string, pyfloat option) dict" where
  "calculate_metrics_loop actual predicted [] results = results"
| "calculate_metrics_loop actual predicted ((name, func) # rest) results =
     calculate_metrics_loop actual predicted rest
       (AList.update name (metric_entry func actual predicted) results)"

definition calculate_metrics ::
  "'v list \<Rightarrow> 'v list \<Rightarrow> (string, 'v metric_function) dict \<Rightarrow> (string, pyfloat option) dict" where
  "calculate_metrics actual predicted metric_functions =
     calculate_metrics_loop actual predicted metric_functions []"

section \<open>The model contract and the evaluation pipeline\<close>

text \<open>
  \<^verbatim>\<open>ForecastModel\<close> is an abstract class: \<^verbatim>\<open>fit\<close> and \<^verbatim>\<open>predict\<close> are the methods a
  subclass supplies, \<^verbatim>\<open>evaluate\<close> is inherited and calls them on \<^verbatim>\<open>self\<close>. A class is
  the record of its two methods over the type \<open>'s\<close> of the object's state; a method takes
  the state and returns the new one beside its result, or the exception.
\<close>

record ('s, 'v) ForecastModel =
  fit :: "'s \<Rightarrow> 'v frame \<Rightarrow> error + 's"
  predict :: "'s \<Rightarrow> int \<Rightarrow> error + ('v frame \<times> 's)"

type_synonym 'v evaluation = "(string, pyfloat option) dict \<times> 'v frame \<times> 'v frame"

definition evaluate ::
  "('s, 'v) ForecastModel \<Rightarrow> 's \<Rightarrow> 'v frame \<Rightarrow> ('v frame \<Rightarrow> 'v frame \<times> 'v frame) \<Rightarrow> int
     \<Rightarrow> (string, 'v metric_function) dict \<Rightarrow> error + ('v evaluation \<times> 's)" where
  "evaluate cls self data splitter horizon metric_functions =
     (case splitter data of (train_data, test_data) \<Rightarrow>
      case fit cls self train_data of Inl e \<Rightarrow> Inl e | Inr self1 \<Rightarrow>
      case predict cls self1 (int (length test_data)) of Inl e \<Rightarrow> Inl e
      | Inr (test_predictions, self2) \<Rightarrow>
      let metrics = calculate_metrics (column_value test_data)
                      (column_value test_predictions) metric_functions in
      case fit cls self2 data of Inl e \<Rightarrow> Inl e | Inr self3 \<Rightarrow>
      case predict cls self3 horizon of Inl e \<Rightarrow> Inl e
      | Inr (forecast, self4) \<Rightarrow> Inr ((metrics, forecast, test_predictions), self4))"

text \<open>
  To observe the order of the calls, a class is wrapped so that each successful call
  of a method is appended to a log kept beside the object's state.
\<close>

datatype 'v call = Fit "'v frame" | Predict int

definition traced :: "('s, 'v) ForecastModel \<Rightarrow> ('s \<times> 'v call list, 'v) ForecastModel" where
  "traced cls =
     \<lparr>fit = (\<lambda>(s, calls) data.
               case fit cls s data of Inl e \<Rightarrow> Inl e | Inr s' \<Rightarrow> Inr (s', calls @ [Fit data])),
      predict = (\<lambda>(s, calls) h.
               case predict cls s h of Inl e \<Rightarrow> Inl e
               | Inr (out, s') \<Rightarrow> Inr (out, (s', calls @ [Predict h])))\<rparr>"

text \<open>
  The stand-in model of the specification's scenario: it remembers the last row of the
  data it was fitted on and predicts that value at the following timestamps, one unit
  apart.
\<close>

definition repeat_last :: "((int \<times> 'v) option, 'v) ForecastModel" where
  "repeat_last =
     \<lparr>fit = (\<lambda>s data. case data of [] \<Rightarrow> Inl IndexError | _ \<Rightarrow> Inr (Some (last data))),
      predict = (\<lambda>s h.
         if h < 1 then Inl (ValueError (HorizonMessage h))
         else case s of None \<Rightarrow> Inl (ValueError NotFittedMessage)
              | Some (t, v) \<Rightarrow> Inr (map (\<lambda>k. (t + 1 + int k, v)) [0..<nat h], s))\<rparr>"

section \<open>The three model variants\<close>

text \<open>
  The numerical routines are third-party code (pandas, statsmodels, Prophet, Darts,
  scikit-learn). Each is a parameter: a record of the library functions the variant
  calls, every one of which may raise. A frequency is the alias string pandas uses.
\<close>

type_synonym freq = string

record pandas =
  infer_freq :: "int list \<Rightarrow> error + freq option"
  to_offset :: "freq \<Rightarrow> int \<Rightarrow> int"
    \<comment> \<open>\<^verbatim>\<open>t + to_offset(freq)\<close>, as a function of the timestamp \<open>t\<close>\<close>
  date_range :: "int \<Rightarrow> int \<Rightarrow> freq \<Rightarrow> error + int list"
    \<comment> \<open>\<^verbatim>\<open>date_range(start=, periods=, freq=)\<close>\<close>

text \<open>
  \<^verbatim>\<open>pd.DataFrame({'value': values}, index=dates)\<close> raises when the column and the index
  differ in length.
\<close>

definition DataFrame :: "'v list \<Rightarrow> int list \<Rightarrow> error + 'v frame" where
  "DataFrame values dates =
     (if length values \<noteq> length dates then Inl (ValueError LengthMessage)
      else Inr (zip dates values))"

text \<open>
  The three \<^verbatim>\<open>fit\<close> methods begin alike: \<^verbatim>\<open>data.index[-1]\<close>, then
  \<^verbatim>\<open>pd.infer_freq(data.index) or 'D'\<close>.
\<close>

definition date_info :: "pandas \<Rightarrow> 'v frame \<Rightarrow> error + (int \<times> freq)" where
  "date_info pd data =
     (case data of [] \<Rightarrow> Inl IndexError
      | _ \<Rightarrow> (case infer_freq pd (index data) of Inl e \<Rightarrow> Inl e
              | Inr None \<Rightarrow> Inr (fst (last data), ''D'')
              | Inr (Some f) \<Rightarrow> Inr (fst (last data), f)))"

subsection \<open>ARIMA\<close>

record ('f, 'v) statsmodels =
  ARIMA_fit :: "'v list \<Rightarrow> int \<times> int \<times> int \<Rightarrow> error + 'f"
  forecast :: "'f \<Rightarrow> int \<Rightarrow> error + 'v list"

record 'f ARIMAForecaster =
  arima_order :: "int \<times> int \<times> int"
  arima_model :: "'f option"
  arima_last_date :: "int option"
  arima_freq :: "freq option"

definition ARIMAForecaster_init :: "int \<Rightarrow> int \<Rightarrow> int \<Rightarrow> 'f ARIMAForecaster" where
  "ARIMAForecaster_init p d q =
     \<lparr>arima_order = (p, d, q), arima_model = None, arima_last_date = None, arima_freq = None\<rparr>"

definition ARIMAForecaster_fit ::
  "pandas \<Rightarrow> ('f, 'v) statsmodels \<Rightarrow> 'f ARIMAForecaster \<Rightarrow> 'v frame \<Rightarrow> error + 'f ARIMAForecaster" where
  "ARIMAForecaster_fit pd sm self data =
     (case date_info pd data of Inl e \<Rightarrow> Inl e
      | Inr (last_date, f) \<Rightarrow>
        (case ARIMA_fit sm (column_value data) (arima_order self) of Inl e \<Rightarrow> Inl e
         | Inr m \<Rightarrow> Inr (self\<lparr>arima_last_date := Some last_date, arima_freq := Some f,
                               arima_model := Some m\<rparr>)))"

definition ARIMAForecaster_predict ::
  "pandas \<Rightarrow> ('f, 'v) statsmodels \<Rightarrow> 'f ARIMAForecaster \<Rightarrow> int \<Rightarrow> error + 'v frame" where
  "ARIMAForecaster_predict pd sm self horizon =
     (if horizon < 1 then Inl (ValueError (HorizonMessage horizon))
      else case arima_model self of None \<Rightarrow> Inl (ValueError NotFittedMessage)
      | Some m \<Rightarrow>
        (case forecast sm m horizon of Inl e \<Rightarrow> Inl e
         | Inr forecast_values \<Rightarrow>
           (case (arima_last_date self, arima_freq self) of
              (Some last_date, Some f) \<Rightarrow>
                (case date_range pd (to_offset pd f last_date) horizon f of Inl e \<Rightarrow> Inl e
                 | Inr future_dates \<Rightarrow> DataFrame forecast_values future_dates)
            | _ \<Rightarrow> Inl TypeError)))"

definition ARIMAForecaster :: "pandas \<Rightarrow> ('f, 'v) statsmodels \<Rightarrow> ('f ARIMAForecaster, 'v) ForecastModel" where
  "ARIMAForecaster pd sm =
     \<lparr>fit = ARIMAForecaster_fit pd sm,
      predict = (\<lambda>self h. case ARIMAForecaster_predict pd sm self h of
                             Inl e \<Rightarrow> Inl e | Inr out \<Rightarrow> Inr (out, self))\<rparr>"

subsection \<open>Prophet\<close>

record prophet_params =
  changepoint_prior_scale :: real
  seasonality_prior_scale :: real
  seasonality_mode :: string

record ('p, 'v) prophet_lib =
  Prophet_fit :: "prophet_params \<Rightarrow> 'v frame \<Rightarrow> error + 'p"
    \<comment> \<open>\<^verbatim>\<open>Prophet(...)\<close> with the three parameters, then \<^verbatim>\<open>.fit(prophet_df)\<close>\<close>
  make_future_dataframe :: "'p \<Rightarrow> int \<Rightarrow> freq \<Rightarrow> error + int list"
  prophet_predict :: "'p \<Rightarrow> int list \<Rightarrow> error + 'v frame"
    \<comment> \<open>the columns \<^verbatim>\<open>ds\<close> and \<^verbatim>\<open>yhat\<close> of \<^verbatim>\<open>model.predict(future)\<close>\<close>

record 'p ProphetForecaster =
  prophet_hyper :: prophet_params
  prophet_model :: "'p option"
  prophet_last_date :: "int option"
  prophet_freq :: "freq option"

definition ProphetForecaster_init :: "real \<Rightarrow> real \<Rightarrow> string \<Rightarrow> 'p ProphetForecaster" where
  "ProphetForecaster_init cps sps mode =
     \<lparr>prophet_hyper = \<lparr>changepoint_prior_scale = cps, seasonality_prior_scale = sps,
                        seasonality_mode = mode\<rparr>,
      prophet_model = None, prophet_last_date = None, prophet_freq = None\<rparr>"

definition ProphetForecaster_fit ::
  "pandas \<Rightarrow> ('p, 'v) prophet_lib \<Rightarrow> 'p ProphetForecaster \<Rightarrow> 'v frame \<Rightarrow> error + 'p ProphetForecaster" where
  "ProphetForecaster_fit pd pl self data =
     (case date_info pd data of Inl e \<Rightarrow> Inl e
      | Inr (last_date, f) \<Rightarrow>
        (case Prophet_fit pl (prophet_hyper self) data of Inl e \<Rightarrow> Inl e
         | Inr m \<Rightarrow> Inr (self\<lparr>prophet_last_date := Some last_date, prophet_freq := Some f,
                               prophet_model := Some m\<rparr>)))"

definition tail :: "'a list \<Rightarrow> int \<Rightarrow> 'a list" where
  "tail xs n = (if n \<le> 0 then [] else drop (length xs - nat n) xs)"

definition ProphetForecaster_predict ::
  "('p, 'v) prophet_lib \<Rightarrow> 'p ProphetForecaster \<Rightarrow> int \<Rightarrow> error + 'v frame" where
  "ProphetForecaster_predict pl self horizon =
     (if horizon < 1 then Inl (ValueError (HorizonMessage horizon))
      else case prophet_model self of None \<Rightarrow> Inl (ValueError NotFittedMessage)
      | Some m \<Rightarrow>
        (case prophet_freq self of None \<Rightarrow> Inl TypeError
         | Some f \<Rightarrow>
           (case make_future_dataframe pl m horizon f of Inl e \<Rightarrow> Inl e
            | Inr future \<Rightarrow>
              (case prophet_predict pl m future of Inl e \<Rightarrow> Inl e
               | Inr fc \<Rightarrow>
                   let forecast_future = tail fc horizon
                   in DataFrame (column_value forecast_future) (index forecast_future)))))"

definition ProphetForecaster ::
  "pandas \<Rightarrow> ('p, 'v) prophet_lib \<Rightarrow> ('p ProphetForecaster, 'v) ForecastModel" where
  "ProphetForecaster pd pl =
     \<lparr>fit = ProphetForecaster_fit pd pl,
      predict = (\<lambda>self h. case ProphetForecaster_predict pl self h of
                             Inl e \<Rightarrow> Inl e | Inr out \<Rightarrow> Inr (out, self))\<rparr>"

subsection \<open>N-BEATS\<close>

datatype scaler_kind = MinMaxScaler | StandardScaler

record ('sc, 'v) sklearn =
  fit_transform :: "scaler_kind \<Rightarrow> 'v list \<Rightarrow> error + ('sc \<times> 'v list)"
  inverse_transform :: "'sc \<Rightarrow> 'v list \<Rightarrow> error + 'v list"

record ('n, 'v) darts =
  NBEATS_fit :: "int \<Rightarrow> int \<Rightarrow> int \<Rightarrow> 'v frame \<Rightarrow> freq \<Rightarrow> error + 'n"
    \<comment> \<open>\<^verbatim>\<open>TimeSeries.from_dataframe\<close>, \<^verbatim>\<open>NBEATSModel(...)\<close> and \<^verbatim>\<open>.fit\<close>, from the chunk
        length, the epochs, the seed, the processed data and the frequency\<close>
  NBEATS_predict :: "'n \<Rightarrow> int \<Rightarrow> error + 'v frame"
    \<comment> \<open>the time index and the values of \<^verbatim>\<open>model.predict(n=horizon)\<close>\<close>

record ('n, 'sc) NBEATSForecaster =
  input_chunk_length :: int
  n_epochs :: int
  scaler_type :: string
  random_state :: int
  nbeats_model :: "'n option"
  scaler :: "(scaler_kind \<times> 'sc option) option"
    \<comment> \<open>the scaler object, if any, with what fitting it has stored\<close>
  nbeats_last_date :: "int option"
  nbeats_freq :: "freq option"
  output_chunk_length :: "int option"

definition scaler_mapping :: "(string, string) dict" where
  "scaler_mapping =
     [(''Standard (z-score)'', ''standard''), (''MinMax (0-1)'', ''minmax''),
      (''None'', ''none''), (''standard'', ''standard''), (''minmax'', ''minmax''),
      (''none'', ''none'')]"

definition NBEATSForecaster_init :: "int \<Rightarrow> int \<Rightarrow> string \<Rightarrow> int \<Rightarrow> ('n, 'sc) NBEATSForecaster" where
  "NBEATSForecaster_init icl epochs st seed =
     (let t = (case map_of scaler_mapping st of Some m \<Rightarrow> m | None \<Rightarrow> lower st)
      in \<lparr>input_chunk_length = icl, n_epochs = epochs, scaler_type = t, random_state = seed,
          nbeats_model = None,
          scaler = (if t = ''minmax'' then Some (MinMaxScaler, None)
                    else if t = ''standard'' then Some (StandardScaler, None)
                    else None),
          nbeats_last_date = None, nbeats_freq = None, output_chunk_length = None\<rparr>)"

definition NBEATSForecaster_fit ::
  "pandas \<Rightarrow> ('sc, 'v) sklearn \<Rightarrow> ('n, 'v) darts \<Rightarrow> ('n, 'sc) NBEATSForecaster \<Rightarrow> 'v frame
     \<Rightarrow> error + ('n, 'sc) NBEATSForecaster" where
  "NBEATSForecaster_fit pd sk da self data =
     (case date_info pd data of Inl e \<Rightarrow> Inl e
      | Inr (last_date, f) \<Rightarrow>
        (case (case scaler self of
                 Some (kind, old) \<Rightarrow>
                   (case fit_transform sk kind (column_value data) of Inl e \<Rightarrow> Inl e
                    | Inr (sc, scaled_values) \<Rightarrow>
                        (case DataFrame scaled_values (index data) of Inl e \<Rightarrow> Inl e
                         | Inr processed \<Rightarrow> Inr (Some (kind, Some sc), processed)))
               | None \<Rightarrow> Inr (None, data)) of
           Inl e \<Rightarrow> Inl e
         | Inr (scaler', processed_data) \<Rightarrow>
           (case NBEATS_fit da (input_chunk_length self) (n_epochs self) (random_state self)
                   processed_data f of
              Inl e \<Rightarrow> Inl e
            | Inr m \<Rightarrow>
                Inr (self\<lparr>nbeats_last_date := Some last_date, nbeats_freq := Some f,
                          scaler := scaler',
                          output_chunk_length := Some (input_chunk_length self),
                          nbeats_model := Some m\<rparr>))))"

definition NBEATSForecaster_predict ::
  "('sc, 'v) sklearn \<Rightarrow> ('n, 'v) darts \<Rightarrow> ('n, 'sc) NBEATSForecaster \<Rightarrow> int \<Rightarrow> error + 'v frame" where
  "NBEATSForecaster_predict sk da self horizon =
     (if horizon < 1 then Inl (ValueError (HorizonMessage horizon))
      else case nbeats_model self of None \<Rightarrow> Inl (ValueError NotFittedMessage)
      | Some m \<Rightarrow>
        (case NBEATS_predict da m horizon of Inl e \<Rightarrow> Inl e
         | Inr forecast_ts \<Rightarrow>
           (case (case scaler self of
                    None \<Rightarrow> Inr (column_value forecast_ts)
                  | Some (kind, None) \<Rightarrow> Inl (LibraryError ''NotFittedError'')
                  | Some (kind, Some sc) \<Rightarrow> inverse_transform sk sc (column_value forecast_ts)) of
              Inl e \<Rightarrow> Inl e
            | Inr predictions \<Rightarrow> DataFrame predictions (index forecast_ts))))"

definition NBEATSForecaster ::
  "pandas \<Rightarrow> ('sc, 'v) sklearn \<Rightarrow> ('n, 'v) darts \<Rightarrow> (('n, 'sc) NBEATSForecaster, 'v) ForecastModel" where
  "NBEATSForecaster pd sk da =
     \<lparr>fit = NBEATSForecaster_fit pd sk da,
      predict = (\<lambda>self h. case NBEATSForecaster_predict sk da self h of
                             Inl e \<Rightarrow> Inl e | Inr out \<Rightarrow> Inr (out, self))\<rparr>"

section \<open>Registries\<close>

definition AVAILABLE_MODELS_keys :: "string list" where
  "AVAILABLE_MODELS_keys = [''ARIMA'', ''PROPHET'', ''NBEATS'']"

record 'v metric_config =
  display_name :: string
  func :: "'v metric_function"
  lower_is_better :: bool
  description :: string

text \<open>
  \<^verbatim>\<open>AVAILABLE_METRICS\<close>, over the two scikit-learn functions it names: the mean absolute
  error and the square root of the mean squared error.
\<close>

definition AVAILABLE_METRICS ::
  "'v metric_function \<Rightarrow> 'v metric_function \<Rightarrow> (string, 'v metric_config) dict" where
  "AVAILABLE_METRICS mae rmse =
     [(''mae'', \<lparr>display_name = ''MAE'', func = mae, lower_is_better = True,
         description = ''**Mean Absolute Error**: Average size of the errors in the same units as the data.''\<rparr>),
      (''rmse'', \<lparr>display_name = ''RMSE'', func = rmse, lower_is_better = True,
         description = ''**Root Mean Squared Error**: Square root of the average squared errors. Penalizes larger errors more.''\<rparr>)]"

section \<open>The cached training entry point and the session state\<close>


record ('c, 'v, 'hp) cache_key =
  key_model_class :: 'c
  key_data :: "'v frame"
  key_train_pct :: int
  key_horizon :: int
  key_upload_key :: int
  key_hyperparams :: 'hp


text \<open>
  The state of one running application: the Streamlit session state that \<^verbatim>\<open>AppState\<close>
  manages, the table behind \<^verbatim>\<open>@st.cache_resource\<close> (from the arguments of a call to
  the value it returned), and a counter of the executions of the decorated body, which
  the code does not have and which only observes it. A session entry that is absent
  and one that holds \<^verbatim>\<open>None\<close> read alike through \<^verbatim>\<open>.get\<close>; both are \<open>None\<close> here.
\<close>

record ('c, 'v, 'hp) app =
  historical_data :: "'v frame option"
  upload_key :: int
  model_trained :: "string \<rightharpoonup> bool"
  results :: "string \<rightharpoonup> (string, pyfloat option) dict"
  predictions :: "string \<rightharpoonup> 'v frame"
  test_predictions :: "string \<rightharpoonup> 'v frame"
  trained_train_pct :: "string \<rightharpoonup> int"
  trained_horizon :: "string \<rightharpoonup> int"
  cache :: "('c, 'v, 'hp) cache_key \<rightharpoonup> 'v evaluation"
  producer_calls :: nat


definition initial_state :: "('c, 'v, 'hp) app" where
  "initial_state =
     \<lparr>historical_data = None, upload_key = 0,
      model_trained = map_of (map (\<lambda>name. (lower name, False)) AVAILABLE_MODELS_keys),
      results = Map.empty, predictions = Map.empty, test_predictions = Map.empty,
      trained_train_pct = Map.empty, trained_horizon = Map.empty,
      cache = Map.empty, producer_calls = 0\<rparr>"





definition set_model_results ::
  "('c, 'v, 'hp) app \<Rightarrow> string \<Rightarrow> (string, pyfloat option) dict \<Rightarrow> 'v frame \<Rightarrow> 'v frame
     \<Rightarrow> int \<Rightarrow> int \<Rightarrow> ('c, 'v, 'hp) app" where
  "set_model_results st model_name metrics preds test_preds pct horizon =
     (let key = lower model_name
      in st\<lparr>results := (results st)(key \<mapsto> metrics),
            predictions := (predictions st)(key \<mapsto> preds),
            test_predictions := (test_predictions st)(key \<mapsto> test_preds),
            trained_train_pct := (trained_train_pct st)(key \<mapsto> pct),
            trained_horizon := (trained_horizon st)(key \<mapsto> horizon),
            model_trained := (model_trained st)(key \<mapsto> True)\<rparr>)"




section \<open>Cross-model comparison\<close>

record 'v stored_results =
  res_trained :: bool
  res_metrics :: "(string, pyfloat option) dict option"
  res_predictions :: "'v frame option"
  res_test_predictions :: "'v frame option"
  res_train_pct :: "int option"
  res_horizon :: "int option"

definition get_model_results :: "('c, 'v, 'hp) app \<Rightarrow> string \<Rightarrow> 'v stored_results" where
  "get_model_results st model_name =
     (let key = lower model_name
      in \<lparr>res_trained = (case model_trained st key of None \<Rightarrow> False | Some b \<Rightarrow> b),
          res_metrics = results st key,
          res_predictions = predictions st key,
          res_test_predictions = test_predictions st key,
          res_train_pct = trained_train_pct st key,
          res_horizon = trained_horizon st key\<rparr>)"

definition get_all_trained_models :: "('c, 'v, 'hp) app \<Rightarrow> (string, bool) dict" where
  "get_all_trained_models st =
     map (\<lambda>name. (name, case model_trained st (lower name) of None \<Rightarrow> False | Some b \<Rightarrow> b))
       AVAILABLE_MODELS_keys"

text \<open>
  What a render function does is the list of the elements it has put on the page, and
  the exception that ended it, if one did. \<open>then_ui\<close> runs a second piece only when the
  first has not raised. Texts are given without their emoji.
\<close>

datatype delta = Trophy | Difference pyfloat pyfloat
  \<comment> \<open>\<open>Difference value best\<close> is the text of \<^verbatim>\<open>value - best_value\<close>\<close>

record card =
  card_label :: string
  card_value :: pyfloat
  card_delta :: delta
  card_delta_color :: string
  card_border :: bool

datatype 'v event =
    InfoTrainOne
  | InfoTrainTwo
  | InfoSelectOne
  | WarningSplits "(string \<times> int \<times> int) list"
      \<comment> \<open>one line per model: its name, its train percentage, and 100 minus it\<close>
  | SuccessSplit int int
  | PlotlyChart "'v frame" "'v frame" "string list"
  | Caption string
  | Write string
  | Metric card

type_synonym 'v ui = "'v event list \<times> error option"

definition then_ui :: "'v ui \<Rightarrow> 'v ui \<Rightarrow> 'v ui" where
  "then_ui a b = (case a of (ev, Some e) \<Rightarrow> (ev, Some e) | (ev, None) \<Rightarrow> (ev @ fst b, snd b))"

text \<open>
  \<^verbatim>\<open><\<close> and \<^verbatim>\<open>>\<close> on metric values: floats compare as IEEE numbers, and a comparison
  with \<^verbatim>\<open>None\<close> raises \<^verbatim>\<open>TypeError\<close>.
\<close>

fun float_lt :: "pyfloat \<Rightarrow> pyfloat \<Rightarrow> bool" where
  "float_lt NaN b = False"
| "float_lt a NaN = False"
| "float_lt (Finite a) (Finite b) = (a < b)"
| "float_lt a NegInf = False"
| "float_lt NegInf b = True"
| "float_lt PosInf b = False"
| "float_lt a PosInf = True"

definition py_lt :: "pyfloat option \<Rightarrow> pyfloat option \<Rightarrow> error + bool" where
  "py_lt a b = (case (a, b) of (Some x, Some y) \<Rightarrow> Inr (float_lt x y) | _ \<Rightarrow> Inl TypeError)"

definition py_gt :: "pyfloat option \<Rightarrow> pyfloat option \<Rightarrow> error + bool" where
  "py_gt a b = (case (a, b) of (Some x, Some y) \<Rightarrow> Inr (float_lt y x) | _ \<Rightarrow> Inl TypeError)"

text \<open>
  \<^verbatim>\<open>min(xs, key=f)\<close> and \<^verbatim>\<open>max(xs, key=f)\<close>: the first element is the candidate, and
  each later element replaces it when its key compares strictly better.
\<close>

fun best_loop ::
  "('b \<Rightarrow> 'b \<Rightarrow> error + bool) \<Rightarrow> ('a \<Rightarrow> 'b) \<Rightarrow> 'a \<Rightarrow> 'a list \<Rightarrow> error + 'a" where
  "best_loop better key best [] = Inr best"
| "best_loop better key best (x # xs) =
     (case better (key x) (key best) of
        Inl e \<Rightarrow> Inl e
      | Inr b \<Rightarrow> best_loop better key (if b then x else best) xs)"

definition py_min :: "('a \<Rightarrow> pyfloat option) \<Rightarrow> 'a list \<Rightarrow> error + 'a" where
  "py_min key xs =
     (case xs of [] \<Rightarrow> Inl (ValueError EmptySequenceMessage)
      | x # rest \<Rightarrow> best_loop py_lt key x rest)"

definition py_max :: "('a \<Rightarrow> pyfloat option) \<Rightarrow> 'a list \<Rightarrow> error + 'a" where
  "py_max key xs =
     (case xs of [] \<Rightarrow> Inl (ValueError EmptySequenceMessage)
      | x # rest \<Rightarrow> best_loop py_gt key x rest)"

definition dict_get :: "(string, 'v option) dict \<Rightarrow> string \<Rightarrow> 'v option" where
  "dict_get d k = (case map_of d k of None \<Rightarrow> None | Some v \<Rightarrow> v)"

text \<open>
  \<^verbatim>\<open>{model: results[metric_key] for model, results in model_results.items()}\<close>; the
  keys of \<^verbatim>\<open>model_results\<close> are distinct, so each item adds an entry.
\<close>

fun metric_values ::
  "string \<Rightarrow> (string, (string, pyfloat option) dict option) dict
     \<Rightarrow> error + (string, pyfloat option) dict" where
  "metric_values metric_key [] = Inr []"
| "metric_values metric_key ((model, res) # rest) =
     (case res of None \<Rightarrow> Inl TypeError
      | Some r \<Rightarrow>
        (case getitem r metric_key of Inl e \<Rightarrow> Inl e
         | Inr v \<Rightarrow>
           (case metric_values metric_key rest of Inl e \<Rightarrow> Inl e
            | Inr mv \<Rightarrow> Inr ((model, v) # mv))))"

fun render_cards ::
  "bool \<Rightarrow> (string, pyfloat option) dict \<Rightarrow> pyfloat option \<Rightarrow> string \<Rightarrow> string list \<Rightarrow> 'v ui" where
  "render_cards lower_better values best_value best_model [] = ([], None)"
| "render_cards lower_better values best_value best_model (model_name # rest) =
     (case getitem values model_name of Inl e \<Rightarrow> ([], Some e)
      | Inr value \<Rightarrow>
        let is_best = (model_name = best_model) in
        (case (if is_best then Inr Trophy
               else (case (value, best_value) of
                       (Some v, Some b) \<Rightarrow> Inr (Difference v b)
                     | _ \<Rightarrow> Inl TypeError)) of
           Inl e \<Rightarrow> ([], Some e)
         | Inr d \<Rightarrow>
           (case value of None \<Rightarrow> ([], Some TypeError)
            | Some v \<Rightarrow>
                then_ui
                  ([Metric \<lparr>card_label = model_name, card_value = v, card_delta = d,
                            card_delta_color =
                              (if is_best then ''off''
                               else if lower_better then ''inverse'' else ''normal''),
                            card_border = is_best\<rparr>], None)
                  (render_cards lower_better values best_value best_model rest))))"

definition render_metric_leaderboard ::
  "string \<Rightarrow> 'w metric_config \<Rightarrow> (string, (string, pyfloat option) dict option) dict
     \<Rightarrow> string list \<Rightarrow> 'v ui" where
  "render_metric_leaderboard metric_key config model_results selected_models =
     (case model_results of [] \<Rightarrow> ([], Some IndexError)
      | (first_model, first_results) # others \<Rightarrow>
        (case first_results of None \<Rightarrow> ([], Some TypeError)
         | Some first \<Rightarrow>
           if metric_key \<notin> set (map fst first) then ([], None)
           else
             then_ui ([Write (''#### '' @ display_name config), Caption (description config)], None)
               (case metric_values metric_key model_results of Inl e \<Rightarrow> ([], Some e)
                | Inr values \<Rightarrow>
                  (case (if lower_is_better config
                         then (case py_min id (map snd values) of Inl e \<Rightarrow> Inl e
                               | Inr bv \<Rightarrow>
                                 (case py_min (dict_get values) (map fst values) of
                                    Inl e \<Rightarrow> Inl e | Inr bm \<Rightarrow> Inr (bv, bm)))
                         else (case py_max id (map snd values) of Inl e \<Rightarrow> Inl e
                               | Inr bv \<Rightarrow>
                                 (case py_max (dict_get values) (map fst values) of
                                    Inl e \<Rightarrow> Inl e | Inr bm \<Rightarrow> Inr (bv, bm)))) of
                     Inl e \<Rightarrow> ([], Some e)
                   | Inr (best_value, best_model) \<Rightarrow>
                       render_cards (lower_is_better config) values best_value best_model
                         selected_models))))"

fun warning_lines :: "(string \<times> int option) list \<Rightarrow> error + (string \<times> int \<times> int) list" where
  "warning_lines [] = Inr []"
| "warning_lines ((model, pct) # rest) =
     (case pct of None \<Rightarrow> Inl TypeError
      | Some p \<Rightarrow>
        (case warning_lines rest of Inl e \<Rightarrow> Inl e
         | Inr ls \<Rightarrow> Inr ((model, p, 100 - p) # ls)))"

text \<open>
  Of \<^verbatim>\<open>plot_model_comparison\<close> only what can end the run is kept: it reads the last
  index entry of the train and of the test data.
\<close>

definition plot_model_comparison :: "'v frame \<Rightarrow> 'v frame \<Rightarrow> string list \<Rightarrow> 'v ui" where
  "plot_model_comparison train_data test_data selected_models =
     (if train_data = [] \<or> test_data = [] then ([], Some IndexError)
      else ([PlotlyChart train_data test_data selected_models], None))"

fun leaderboards ::
  "(string, 'w metric_config) dict \<Rightarrow> (string, (string, pyfloat option) dict option) dict
     \<Rightarrow> string list \<Rightarrow> 'v ui" where
  "leaderboards [] model_results selected_models = ([], None)"
| "leaderboards ((metric_key, config) # rest) model_results selected_models =
     then_ui (render_metric_leaderboard metric_key config model_results selected_models)
       (leaderboards rest model_results selected_models)"

text \<open>
  \<^verbatim>\<open>render_comparison_tab\<close>; \<open>selected_models\<close> is what the multiselect widget returns.
\<close>

definition render_comparison_tab ::
  "(string, 'w metric_config) dict \<Rightarrow> ('c, 'v, 'hp) app \<Rightarrow> 'v frame \<Rightarrow> string list \<Rightarrow> 'v ui" where
  "render_comparison_tab metrics_registry st data selected_models =
     (let trained_models = get_all_trained_models st;
          num_trained = length (filter snd trained_models)
      in if num_trained = 0 then ([InfoTrainOne], None)
         else if num_trained = 1 then ([InfoTrainTwo], None)
         else
           let train_pcts =
                 map (\<lambda>model_name. (model_name, res_train_pct (get_model_results st model_name)))
                   (filter (\<lambda>model_name. map_of trained_models model_name = Some True)
                      AVAILABLE_MODELS_keys);
               train_pct_values = map snd train_pcts;
               all_same_split = list_all (\<lambda>pct. pct = hd train_pct_values) train_pct_values
           in if \<not> all_same_split
              then (case warning_lines train_pcts of Inl e \<Rightarrow> ([], Some e)
                    | Inr ls \<Rightarrow> ([WarningSplits ls], Some StopException))
              else
                (case train_pct_values of [] \<Rightarrow> ([], Some IndexError)
                 | None # vs \<Rightarrow> ([], Some TypeError)
                 | Some pct # vs \<Rightarrow>
                   then_ui ([SuccessSplit pct (100 - pct)], None)
                     (case HoldoutPctSplitter_init pct of Inl e \<Rightarrow> ([], Some e)
                      | Inr splitter \<Rightarrow>
                        (case HoldoutPctSplitter_split splitter data of
                           (train_data, test_data) \<Rightarrow>
                             if selected_models = [] then ([InfoSelectOne], Some StopException)
                             else
                               let model_results =
                                     map (\<lambda>model_name.
                                            (model_name, res_metrics (get_model_results st model_name)))
                                       selected_models
                               in then_ui (plot_model_comparison train_data test_data selected_models)
                                    (then_ui ([Caption ''LEADERBOARD''], None)
                                       (leaderboards metrics_registry model_results
                                          selected_models))))))"

section \<open>What the variants rely on from the libraries\<close>

text \<open>
  The timestamps a forecast carries are produced by library code. The following
  predicates state, for each library, the documented behaviour that the variants build
  on; they say nothing about the forecast values. \<open>future_dates pd f t h\<close> is the list
  of the \<open>h\<close> timestamps that follow \<open>t\<close> at frequency \<open>f\<close>: \<open>t\<close> plus one offset, plus
  two offsets, and so on.
\<close>

definition future_dates :: "pandas \<Rightarrow> freq \<Rightarrow> int \<Rightarrow> int \<Rightarrow> int list" where
  "future_dates pd f t h = map (\<lambda>k. (to_offset pd f ^^ Suc k) t) [0..<nat h]"






section \<open>Stand-in libraries\<close>

text \<open>
  Small executable libraries on which the definitions can be run: timestamps one unit
  apart at frequency \<^verbatim>\<open>D\<close>, models that repeat the last value they saw or predict
  zero, and a scaler that changes nothing.
\<close>

definition stub_pandas :: pandas where
  "stub_pandas =
     \<lparr>infer_freq = (\<lambda>idx. Inr (Some ''D'')),
      to_offset = (\<lambda>f t. t + 1),
      date_range = (\<lambda>start periods f. Inr (map (\<lambda>k. start + int k) [0..<nat periods]))\<rparr>"

definition stub_statsmodels :: "(int list, int) statsmodels" where
  "stub_statsmodels =
     \<lparr>ARIMA_fit = (\<lambda>vs order. Inr vs),
      forecast = (\<lambda>m h. Inr (replicate (nat h) (last m)))\<rparr>"

definition stub_prophet :: "(int frame, int) prophet_lib" where
  "stub_prophet =
     \<lparr>Prophet_fit = (\<lambda>hp data. Inr data),
      make_future_dataframe =
        (\<lambda>m h f. Inr (index m @ map (\<lambda>k. Max (set (index m)) + 1 + int k) [0..<nat h])),
      prophet_predict = (\<lambda>m ds. Inr (map (\<lambda>t. (t, 0)) ds))\<rparr>"

definition stub_darts :: "(int frame, int) darts" where
  "stub_darts =
     \<lparr>NBEATS_fit = (\<lambda>icl epochs seed processed f. Inr processed),
      NBEATS_predict =
        (\<lambda>m h. Inr (map (\<lambda>k. (Max (set (index m)) + 1 + int k, snd (last m))) [0..<nat h]))\<rparr>"

definition stub_sklearn :: "(unit, int) sklearn" where
  "stub_sklearn =
     \<lparr>fit_transform = (\<lambda>kind vs. Inr ((), vs)),
      inverse_transform = (\<lambda>sc vs. Inr vs)\<rparr>"


definition stub_metrics :: "(string, int metric_config) dict" where
  "stub_metrics = AVAILABLE_METRICS (\<lambda>a p. Inr (Finite 1)) (\<lambda>a p. Inr (Finite 2))"

text \<open>
  The session after ARIMA and Prophet have been trained, with the given recorded split
  percentages and metrics.
\<close>

definition two_trained ::
  "int \<Rightarrow> (string, pyfloat option) dict \<Rightarrow> int \<Rightarrow> (string, pyfloat option) dict \<Rightarrow> (string, int, unit) app" where
  "two_trained pct_arima metrics_arima pct_prophet metrics_prophet =
     set_model_results
       (set_model_results initial_state ''ARIMA'' metrics_arima [(5, 4), (6, 4)] [(4, 3)] pct_arima 2)
       ''PROPHET'' metrics_prophet [(5, 4), (6, 4)] [(4, 3)] pct_prophet 2"

section \<open>Properties of the splitter\<close>

lemma py_int_truediv_floor:
  "0 \<le> a \<Longrightarrow> py_int_truediv a 100 = \<lfloor>real_of_int a / 100\<rfloor>"
  by (simp add: py_int_truediv_def floor_divide_of_int_eq[of a 100, simplified])

lemma init_Inr: "HoldoutPctSplitter_init pct = Inr s \<Longrightarrow> 0 < pct \<and> pct < 100 \<and> train_pct s = pct"
  by (auto simp: HoldoutPctSplitter_init_def split: if_splits)

lemma split_idx_pos: "1 \<le> split_idx s n"
  by (simp add: split_idx_def)

lemma split_take_drop:
  "HoldoutPctSplitter_split s data = (take (nat (split_idx s (length data))) data, drop (nat (split_idx s (length data))) data)"
proof -
  have take_min: "take (min k (length xs)) xs = take k xs" for k and xs :: "'a list"
    by (cases "k \<le> length xs") (simp_all add: min_def)
  have drop_min: "drop (min k (length xs)) xs = drop k xs" for k and xs :: "'a list"
    by (cases "k \<le> length xs") (simp_all add: min_def)
  show ?thesis
    using split_idx_pos[of s "length data"]
    by (simp add: HoldoutPctSplitter_split_def Let_def iloc_to_def iloc_from_def
          slice_bound_def take_min drop_min)
qed

text \<open>
  Claim C2, amended. For a splitter built with a percentage in the open interval
  (0,100) and a series of length \<open>n\<close>, the split index is
  \<open>max 1 (min (n - 1) \<lfloor>n * train_pct / 100\<rfloor>)\<close>: the quotient is truncated, not rounded to
  the nearest integer. Train is the series up to that index and test is the rest.
\<close>

theorem split_truncates:
  assumes "HoldoutPctSplitter_init pct = Inr s"
  shows "HoldoutPctSplitter_split s data =
     (let n = int (length data);
          k = nat (max 1 (min (n - 1) \<lfloor>real_of_int (n * pct) / 100\<rfloor>))
      in (take k data, drop k data))"
proof -
  from assms have p: "0 < pct" "train_pct s = pct" using init_Inr by blast+
  then have "0 \<le> int (length data) * pct" by simp
  then show ?thesis
    by (simp add: split_take_drop split_idx_def p py_int_truediv_floor Let_def)
qed

theorem split_truncates_witness:
  "HoldoutPctSplitter_init 80 = Inr \<lparr>train_pct = 80\<rparr> \<and>
   HoldoutPctSplitter_split \<lparr>train_pct = 80\<rparr> [10, 11, 12, 13, 14 :: int] = ([10, 11, 12, 13], [14])"
proof -
  have h: "HoldoutPctSplitter_init 80 = Inr \<lparr>train_pct = 80\<rparr>"
    by (simp add: HoldoutPctSplitter_init_def)
  show ?thesis using h split_truncates[OF h, of "[10, 11, 12, 13, 14 :: int]"] by simp
qed

text \<open>
  With ten points and 77 percent the code cuts after 7 points (7.7 truncated); the
  rounded formula would cut after 8.
\<close>

theorem split_rounds_counterexample:
  "HoldoutPctSplitter_init 77 = Inr \<lparr>train_pct = 77\<rparr> \<and>
   HoldoutPctSplitter_split \<lparr>train_pct = 77\<rparr> [0, 1, 2, 3, 4, 5, 6, 7, 8, 9 :: int]
     \<noteq> (take (nat (spec_round_split_idx 10 77)) [0, 1, 2, 3, 4, 5, 6, 7, 8, 9],
         drop (nat (spec_round_split_idx 10 77)) [0, 1, 2, 3, 4, 5, 6, 7, 8, 9])"
  by (simp add: HoldoutPctSplitter_init_def split_take_drop split_idx_def py_int_truediv_def
        spec_round_split_idx_def round_def)

text \<open>
  Claim C4. For a series of at least two points and a percentage in (0,100), both parts
  are non-empty, their lengths add up to the length of the series, and train followed by
  test is the series itself: train is a prefix and test the remaining suffix, in the
  original order.
\<close>

theorem split_invariants:
  assumes "HoldoutPctSplitter_init pct = Inr s" and "2 \<le> length data"
    and "HoldoutPctSplitter_split s data = (train, test)"
  shows "1 \<le> length train \<and> 1 \<le> length test \<and> length train + length test = length data
         \<and> train @ test = data
         \<and> (\<forall>i < length train. train ! i = data ! i)
         \<and> (\<forall>j < length test. test ! j = data ! (length train + j))"
proof -
  let ?k = "nat (split_idx s (length data))"
  have tr: "train = take ?k data" and te: "test = drop ?k data"
    using assms(3) by (simp_all add: split_take_drop)
  have lo: "1 \<le> ?k" using split_idx_pos[of s "length data"] by simp
  have hi: "?k \<le> length data - 1"
    using assms(2) by (simp add: split_idx_def)
  have app: "train @ test = data" by (simp add: tr te)
  have l1: "length train = ?k" using hi by (simp add: tr)
  have l2: "length test = length data - ?k" by (simp add: te)
  from lo hi assms(2) l1 l2 have lens: "1 \<le> length train" "1 \<le> length test"
    "length train + length test = length data" by linarith+
  have a: "\<forall>i < length train. train ! i = data ! i" by (simp add: tr)
  have b: "\<forall>j < length test. test ! j = data ! (length train + j)"
    using hi by (simp add: te l1 tr)
  from lens app a b show ?thesis by blast
qed

theorem split_invariants_witness:
  "HoldoutPctSplitter_init 80 = Inr \<lparr>train_pct = 80\<rparr> \<and> 2 \<le> length [10, 11, 12, 13, 14 :: int]
   \<and> HoldoutPctSplitter_split \<lparr>train_pct = 80\<rparr> [10, 11, 12, 13, 14 :: int] = ([10, 11, 12, 13], [14])
   \<and> 1 \<le> length [10, 11, 12, 13 :: int] \<and> 1 \<le> length [14 :: int]
   \<and> [10, 11, 12, 13] @ [14] = [10, 11, 12, 13, 14 :: int]"
proof -
  have h1: "HoldoutPctSplitter_init 80 = Inr \<lparr>train_pct = 80\<rparr>"
    by (simp add: HoldoutPctSplitter_init_def)
  have h2: "2 \<le> length [10, 11, 12, 13, 14 :: int]" by simp
  have h3: "HoldoutPctSplitter_split \<lparr>train_pct = 80\<rparr> [10, 11, 12, 13, 14 :: int] = ([10, 11, 12, 13], [14])"
    by (simp add: split_take_drop split_idx_def py_int_truediv_def)
  show ?thesis using h1 h2 h3 split_invariants[OF h1 h2 h3] by simp
qed

text \<open>
  The constructor raises \<^verbatim>\<open>ValueError\<close>, the InvalidConfiguration failure, exactly when
  the percentage is outside the open interval (0,100); then there is no splitter and so
  no pair.
\<close>

lemma splitter_rejects_percentage:
  "HoldoutPctSplitter_init pct =
     (if 0 < pct \<and> pct < 100 then Inr \<lparr>train_pct = pct\<rparr> else Inl (ValueError NoMessage))"
  and "failure_of (ValueError NoMessage) = InvalidConfiguration"
  by (simp_all add: HoldoutPctSplitter_init_def)

text \<open>
  Claim C3. The claim asks that the splitter fail with InvalidConfiguration both for a
  percentage outside (0,100) and for a series of fewer than two points, producing no
  pair. The first half holds, as shown above. The second does not: \<^verbatim>\<open>split\<close> has no
  check of the length, and for a series of one point and 80 percent it returns a pair,
  the point as train and an empty test set, although the docstring and the comment at
  the clamp promise at least one point in both sets.
\<close>

theorem split_short_series_returns_empty_test:
  "HoldoutPctSplitter_init 80 = Inr \<lparr>train_pct = 80\<rparr>
   \<and> HoldoutPctSplitter_split \<lparr>train_pct = 80\<rparr> [(0 :: int, 1 :: int)] = ([(0, 1)], [])"
  by (simp add: HoldoutPctSplitter_init_def split_take_drop split_idx_def py_int_truediv_def)

section \<open>Properties of the metrics and of the evaluation pipeline\<close>

lemma update_fresh: "k \<notin> fst ` set al \<Longrightarrow> AList.update k v al = al @ [(k, v)]"
  by (induction al) auto

lemma calculate_metrics_loop_append:
  "distinct (map fst acc @ map fst mfs) \<Longrightarrow>
   calculate_metrics_loop a p mfs acc = acc @ map (\<lambda>(name, f). (name, metric_entry f a p)) mfs"
proof (induction mfs arbitrary: acc)
  case Nil
  then show ?case by simp
next
  case (Cons m mfs)
  obtain name f where m: "m = (name, f)" by (cases m)
  from Cons.prems have fresh: "name \<notin> fst ` set acc" by (auto simp: m)
  from Cons.prems have "distinct (map fst (acc @ [(name, metric_entry f a p)]) @ map fst mfs)"
    by (auto simp: m)
  from Cons.IH[OF this] show ?case by (simp add: m update_fresh[OF fresh])
qed

text \<open>
  Claim C8. For a dictionary of metric functions (distinct names), \<^verbatim>\<open>calculate_metrics\<close>
  returns one entry per requested name, in the same order. The entry of a metric whose
  function raises, or returns NaN or an infinity, is \<^verbatim>\<open>None\<close>; every other entry is the
  value its own function returned, whatever the other functions did. The function has
  no failure of its own: its result is a dictionary, never an exception.
\<close>

theorem calculate_metrics_isolates_failures:
  assumes "distinct (map fst metric_functions)"
  shows "calculate_metrics actual predicted metric_functions =
           map (\<lambda>(name, f). (name,
                  case f actual predicted of
                    Inl e \<Rightarrow> None
                  | Inr v \<Rightarrow> if isnan v \<or> isinf v then None else Some v)) metric_functions
         \<and> map fst (calculate_metrics actual predicted metric_functions) = map fst metric_functions
         \<and> distinct (map fst (calculate_metrics actual predicted metric_functions))"
proof -
  have eq: "calculate_metrics actual predicted metric_functions =
      map (\<lambda>(name, f). (name, metric_entry f actual predicted)) metric_functions"
    using assms calculate_metrics_loop_append[of "[]" metric_functions actual predicted]
    by (simp add: calculate_metrics_def)
  have keys: "map fst (calculate_metrics actual predicted metric_functions) = map fst metric_functions"
    by (simp add: eq case_prod_unfold comp_def)
  have vals: "calculate_metrics actual predicted metric_functions =
           map (\<lambda>(name, f). (name,
                  case f actual predicted of
                    Inl e \<Rightarrow> None
                  | Inr v \<Rightarrow> if isnan v \<or> isinf v then None else Some v)) metric_functions"
    by (simp add: eq metric_entry_def)
  have dist: "distinct (map fst (calculate_metrics actual predicted metric_functions))"
    using assms by (simp only: keys)
  from vals keys dist show ?thesis by blast
qed

theorem calculate_metrics_isolates_failures_witness:
  "distinct (map fst [(''mae'', \<lambda>a p. Inr (Finite 1)), (''bad'', \<lambda>a p. Inl TypeError),
                      (''nan'', \<lambda>a p. Inr NaN), (''inf'', \<lambda>a p. Inr PosInf),
                      (''rmse'', \<lambda>a p. Inr (Finite 2))])
   \<and> calculate_metrics [1, 2 :: int] [1, 3]
        [(''mae'', \<lambda>a p. Inr (Finite 1)), (''bad'', \<lambda>a p. Inl TypeError),
         (''nan'', \<lambda>a p. Inr NaN), (''inf'', \<lambda>a p. Inr PosInf),
         (''rmse'', \<lambda>a p. Inr (Finite 2))]
      = [(''mae'', Some (Finite 1)), (''bad'', None), (''nan'', None), (''inf'', None),
         (''rmse'', Some (Finite 2))]"
proof -
  have h: "distinct (map fst [(''mae'', \<lambda>(a :: int list) (p :: int list). Inr (Finite 1) :: error + pyfloat),
        (''bad'', \<lambda>a p. Inl TypeError),
        (''nan'', \<lambda>a p. Inr NaN), (''inf'', \<lambda>a p. Inr PosInf),
        (''rmse'', \<lambda>a p. Inr (Finite 2))])" by simp
  show ?thesis
    using h calculate_metrics_isolates_failures[OF h, of "[1, 2]" "[1, 3]"] by simp
qed

lemma evaluate_steps:
  "evaluate cls s0 data splitter horizon mfs = Inr ((metrics, forecast_out, tps), s4)
   \<longleftrightarrow> (\<exists>train test s1 s2 s3.
          splitter data = (train, test)
        \<and> fit cls s0 train = Inr s1
        \<and> predict cls s1 (int (length test)) = Inr (tps, s2)
        \<and> metrics = calculate_metrics (column_value test) (column_value tps) mfs
        \<and> fit cls s2 data = Inr s3
        \<and> predict cls s3 horizon = Inr (forecast_out, s4))"
  by (auto simp: evaluate_def Let_def split: prod.splits sum.splits)

lemma evaluate_log:
  assumes "evaluate (traced cls) (s0, calls0) data splitter horizon mfs = Inr (r, (s4, calls))"
  shows "calls = calls0 @ [Fit (fst (splitter data)), Predict (int (length (snd (splitter data)))),
                 Fit data, Predict horizon]
         \<and> evaluate cls s0 data splitter horizon mfs = Inr (r, s4)"
  using assms
  by (auto simp: evaluate_def traced_def Let_def split: prod.splits sum.splits)

lemma evaluate_traced_exists:
  assumes "evaluate cls s0 data splitter horizon mfs = Inr (r, s4)"
  shows "\<exists>calls. evaluate (traced cls) (s0, calls0) data splitter horizon mfs = Inr (r, (s4, calls))"
  using assms
  by (auto simp: evaluate_def traced_def Let_def split: prod.splits sum.splits)

text \<open>
  Claim C1. \<^verbatim>\<open>evaluate\<close> returns (metrics, forecast, test predictions) exactly when
  the fixed sequence succeeds: split the series into train and test; fit on train;
  predict as many steps as test has rows, which gives the test predictions; compute the
  metrics from the test values and those predictions; fit again on the whole series;
  predict \<open>horizon\<close> steps, which gives the forecast. The calls made on the model are,
  in this order and no others: fit on train, predict, fit on the whole series, predict.
  So the test predictions come from the fit on train and the forecast from the fit on
  the whole series.
\<close>

theorem evaluate_two_phase:
  "(evaluate cls s0 data splitter horizon mfs = Inr ((metrics, forecast_out, tps), s4)
      \<longleftrightarrow> (\<exists>train test s1 s2 s3.
            splitter data = (train, test)
          \<and> fit cls s0 train = Inr s1
          \<and> predict cls s1 (int (length test)) = Inr (tps, s2)
          \<and> metrics = calculate_metrics (column_value test) (column_value tps) mfs
          \<and> fit cls s2 data = Inr s3
          \<and> predict cls s3 horizon = Inr (forecast_out, s4)))
   \<and> (\<forall>r s calls.
         evaluate (traced cls) (s0, []) data splitter horizon mfs = Inr (r, (s, calls)) \<longrightarrow>
           calls = [Fit (fst (splitter data)), Predict (int (length (snd (splitter data)))),
                    Fit data, Predict horizon]
           \<and> evaluate cls s0 data splitter horizon mfs = Inr (r, s))
   \<and> (\<forall>r s. evaluate cls s0 data splitter horizon mfs = Inr (r, s) \<longrightarrow>
         (\<exists>calls. evaluate (traced cls) (s0, []) data splitter horizon mfs = Inr (r, (s, calls))))"
proof (intro conjI allI impI)
  show "evaluate cls s0 data splitter horizon mfs = Inr ((metrics, forecast_out, tps), s4)
      \<longleftrightarrow> (\<exists>train test s1 s2 s3.
            splitter data = (train, test)
          \<and> fit cls s0 train = Inr s1
          \<and> predict cls s1 (int (length test)) = Inr (tps, s2)
          \<and> metrics = calculate_metrics (column_value test) (column_value tps) mfs
          \<and> fit cls s2 data = Inr s3
          \<and> predict cls s3 horizon = Inr (forecast_out, s4))"
    by (rule evaluate_steps)
next
  fix r s calls
  assume a: "evaluate (traced cls) (s0, []) data splitter horizon mfs = Inr (r, (s, calls))"
  from evaluate_log[OF a]
  show "calls = [Fit (fst (splitter data)), Predict (int (length (snd (splitter data)))),
                    Fit data, Predict horizon]"
    and "evaluate cls s0 data splitter horizon mfs = Inr (r, s)" by simp_all
next
  fix r s
  assume "evaluate cls s0 data splitter horizon mfs = Inr (r, s)"
  then show "\<exists>calls. evaluate (traced cls) (s0, []) data splitter horizon mfs = Inr (r, (s, calls))"
    by (rule evaluate_traced_exists)
qed

lemma split5: "HoldoutPctSplitter_split \<lparr>train_pct = 80\<rparr> [(0, 0), (1, 1), (2, 2), (3, 3), (4 :: int, 4 :: int)]
   = ([(0, 0), (1, 1), (2, 2), (3, 3)], [(4, 4)])"
  by (simp add: split_take_drop split_idx_def py_int_truediv_def)

lemma upt_2: "[0..<2] = [0, 1]" by (simp add: upt_rec)

theorem evaluate_two_phase_witness:
  "evaluate repeat_last None [(0, 0), (1, 1), (2, 2), (3, 3), (4, 4 :: int)]
      (HoldoutPctSplitter_split \<lparr>train_pct = 80\<rparr>) 2
      [(''mae'', \<lambda>a p. Inr (Finite (real_of_int (sum_list (map2 (\<lambda>x y. \<bar>x - y\<bar>) a p)) / real (length a))))]
    = Inr (([(''mae'', Some (Finite 1))], [(5, 4), (6, 4)], [(4, 3)]), Some (4, 4))
   \<and> evaluate (traced repeat_last) (None, []) [(0, 0), (1, 1), (2, 2), (3, 3), (4, 4 :: int)]
      (HoldoutPctSplitter_split \<lparr>train_pct = 80\<rparr>) 2
      [(''mae'', \<lambda>a p. Inr (Finite (real_of_int (sum_list (map2 (\<lambda>x y. \<bar>x - y\<bar>) a p)) / real (length a))))]
    = Inr (([(''mae'', Some (Finite 1))], [(5, 4), (6, 4)], [(4, 3)]),
           (Some (4, 4),
            [Fit [(0, 0), (1, 1), (2, 2), (3, 3)], Predict 1,
             Fit [(0, 0), (1, 1), (2, 2), (3, 3), (4, 4)], Predict 2]))"
proof -
  let ?data = "[(0, 0), (1, 1), (2, 2), (3, 3), (4, 4 :: int)]"
  let ?mfs = "[(''mae'', \<lambda>(a :: int list) p. Inr (Finite (real_of_int (sum_list (map2 (\<lambda>x y. \<bar>x - y\<bar>) a p)) / real (length a))) :: error + pyfloat)]"
  have steps: "\<exists>train test s1 s2 s3.
            HoldoutPctSplitter_split \<lparr>train_pct = 80\<rparr> ?data = (train, test)
          \<and> fit repeat_last None train = Inr s1
          \<and> predict repeat_last s1 (int (length test)) = Inr ([(4, 3)], s2)
          \<and> [(''mae'', Some (Finite 1))] = calculate_metrics (column_value test) (column_value [(4, 3)]) ?mfs
          \<and> fit repeat_last s2 ?data = Inr s3
          \<and> predict repeat_last s3 2 = Inr ([(5, 4), (6, 4)], Some (4, 4))"
    by (simp add: split5 repeat_last_def calculate_metrics_def metric_entry_def column_value_def upt_2)
  note inst = evaluate_two_phase[of repeat_last None ?data "HoldoutPctSplitter_split \<lparr>train_pct = 80\<rparr>" 2 ?mfs
      "[(''mae'', Some (Finite 1))]" "[(5, 4), (6, 4)]" "[(4, 3)]" "Some (4, 4)"]
  from inst[THEN conjunct1, THEN iffD2, OF steps] have e: "evaluate repeat_last None ?data (HoldoutPctSplitter_split \<lparr>train_pct = 80\<rparr>) 2 ?mfs
      = Inr (([(''mae'', Some (Finite 1))], [(5, 4), (6, 4)], [(4, 3)]), Some (4, 4))" .
  have t: "evaluate (traced repeat_last) (None, []) ?data (HoldoutPctSplitter_split \<lparr>train_pct = 80\<rparr>) 2 ?mfs
      = Inr (([(''mae'', Some (Finite 1))], [(5, 4), (6, 4)], [(4, 3)]),
           (Some (4, 4),
            [Fit [(0, 0), (1, 1), (2, 2), (3, 3)], Predict 1, Fit ?data, Predict 2]))"
    by (simp add: evaluate_def traced_def split5 repeat_last_def calculate_metrics_def
          metric_entry_def column_value_def upt_2)
  from e t show ?thesis by simp
qed

text \<open>
  In each of the three variants \<^verbatim>\<open>fit\<close> reads only the hyperparameters and overwrites
  everything an earlier fit has stored, and \<^verbatim>\<open>predict\<close> leaves the object as it is. So
  the second fit of \<^verbatim>\<open>evaluate\<close> gives the object that a fit of the fresh model on the
  whole series gives: nothing of the fit on train remains in the forecast.
\<close>

lemma arima_refit:
  assumes "ARIMAForecaster_fit pd sm a0 d = Inr a1"
  shows "ARIMAForecaster_fit pd sm a1 d' = ARIMAForecaster_fit pd sm a0 d'"
  using assms
  by (auto simp: ARIMAForecaster_fit_def split: sum.splits prod.splits)

lemma prophet_refit:
  assumes "ProphetForecaster_fit pd pl p0 d = Inr p1"
  shows "ProphetForecaster_fit pd pl p1 d' = ProphetForecaster_fit pd pl p0 d'"
  using assms
  by (auto simp: ProphetForecaster_fit_def split: sum.splits prod.splits)

lemma nbeats_refit:
  assumes "NBEATSForecaster_fit pd sk da n0 d = Inr n1"
  shows "NBEATSForecaster_fit pd sk da n1 d' = NBEATSForecaster_fit pd sk da n0 d'"
proof (cases "scaler n0")
  case None
  with assms show ?thesis
    by (auto simp: NBEATSForecaster_fit_def split: sum.splits prod.splits)
next
  case (Some ks)
  obtain kind old where ks: "ks = (kind, old)" by (cases ks)
  with Some assms show ?thesis
    by (auto simp: NBEATSForecaster_fit_def split: sum.splits prod.splits)
qed

lemma refit_discards_previous_fit:
  "(fit (ARIMAForecaster pd sm) a0 d = Inr a1 \<longrightarrow>
      predict (ARIMAForecaster pd sm) a1 h = Inr (out_a, a2) \<longrightarrow>
      fit (ARIMAForecaster pd sm) a2 d' = fit (ARIMAForecaster pd sm) a0 d')
   \<and> (fit (ProphetForecaster pd pl) p0 d = Inr p1 \<longrightarrow>
      predict (ProphetForecaster pd pl) p1 h = Inr (out_p, p2) \<longrightarrow>
      fit (ProphetForecaster pd pl) p2 d' = fit (ProphetForecaster pd pl) p0 d')
   \<and> (fit (NBEATSForecaster pd sk da) n0 d = Inr n1 \<longrightarrow>
      predict (NBEATSForecaster pd sk da) n1 h = Inr (out_n, n2) \<longrightarrow>
      fit (NBEATSForecaster pd sk da) n2 d' = fit (NBEATSForecaster pd sk da) n0 d')"
  by (auto simp: ARIMAForecaster_def ProphetForecaster_def NBEATSForecaster_def
        arima_refit prophet_refit nbeats_refit split: sum.splits)

section \<open>Failures of predict\<close>

text \<open>
  Claim C6, amended. In each of the three variants \<^verbatim>\<open>predict\<close> checks the horizon
  first and the fitted state second. So for every horizon below 1 it fails with the
  horizon \<^verbatim>\<open>ValueError\<close> (InvalidConfiguration) on every object, fitted or not and
  whatever its hyperparameters; and on an object that was never fitted it fails with the
  not-fitted \<^verbatim>\<open>ValueError\<close> (NotFittedError) for every horizon of at least 1.
\<close>

theorem predict_failures:
  "(h < 1 \<longrightarrow>
      ARIMAForecaster_predict pd sm a h = Inl (ValueError (HorizonMessage h))
    \<and> ProphetForecaster_predict pl p h = Inl (ValueError (HorizonMessage h))
    \<and> NBEATSForecaster_predict sk da n h = Inl (ValueError (HorizonMessage h))
    \<and> failure_of (ValueError (HorizonMessage h)) = InvalidConfiguration)
   \<and> (1 \<le> h \<longrightarrow>
      ARIMAForecaster_predict pd sm (ARIMAForecaster_init p' d q) h = Inl (ValueError NotFittedMessage)
    \<and> ProphetForecaster_predict pl (ProphetForecaster_init cps sps mode) h
         = Inl (ValueError NotFittedMessage)
    \<and> NBEATSForecaster_predict sk da (NBEATSForecaster_init icl epochs st seed) h
         = Inl (ValueError NotFittedMessage)
    \<and> failure_of (ValueError NotFittedMessage) = NotFittedError)"
  by (simp add: ARIMAForecaster_predict_def ProphetForecaster_predict_def
        NBEATSForecaster_predict_def ARIMAForecaster_init_def ProphetForecaster_init_def
        NBEATSForecaster_init_def Let_def)

theorem predict_failures_witness:
  "ARIMAForecaster_predict stub_pandas stub_statsmodels (ARIMAForecaster_init 1 1 1) 0
     = Inl (ValueError (HorizonMessage 0))
   \<and> ProphetForecaster_predict stub_prophet (ProphetForecaster_init (1/20) 10 ''additive'') (- 1)
     = Inl (ValueError (HorizonMessage (- 1)))
   \<and> NBEATSForecaster_predict stub_sklearn stub_darts (NBEATSForecaster_init 5 10 ''standard'' 22) 0
     = Inl (ValueError (HorizonMessage 0))
   \<and> ARIMAForecaster_predict stub_pandas stub_statsmodels (ARIMAForecaster_init 1 1 1) 3
     = Inl (ValueError NotFittedMessage)
   \<and> ProphetForecaster_predict stub_prophet (ProphetForecaster_init (1/20) 10 ''additive'') 3
     = Inl (ValueError NotFittedMessage)
   \<and> NBEATSForecaster_predict stub_sklearn stub_darts (NBEATSForecaster_init 5 10 ''standard'' 22) 3
     = Inl (ValueError NotFittedMessage)"
  using predict_failures[of 0 stub_pandas stub_statsmodels "ARIMAForecaster_init 1 1 1" stub_prophet
      "ProphetForecaster_init (1/20) 10 ''additive''" stub_sklearn stub_darts
      "NBEATSForecaster_init 5 10 ''standard'' 22"]
    predict_failures[of "- 1" stub_pandas stub_statsmodels "ARIMAForecaster_init 1 1 1" stub_prophet
      "ProphetForecaster_init (1/20) 10 ''additive''" stub_sklearn stub_darts
      "NBEATSForecaster_init 5 10 ''standard'' 22"]
    predict_failures[of 3 stub_pandas stub_statsmodels _ stub_prophet _ stub_sklearn stub_darts _
      1 1 1 "1/20" 10 "''additive''" 5 10 "''standard''" 22]
  by simp

text \<open>
  On an object that was never fitted, \<^verbatim>\<open>predict(0)\<close> fails with the horizon error, not
  with the not-fitted error.
\<close>

theorem unfitted_zero_horizon_counterexample:
  "ARIMAForecaster_predict stub_pandas stub_statsmodels (ARIMAForecaster_init 1 1 1) 0
     = Inl (ValueError (HorizonMessage 0))
   \<and> failure_of (ValueError (HorizonMessage 0)) \<noteq> NotFittedError"
  by (simp add: ARIMAForecaster_predict_def)

section \<open>Properties of the comparison\<close>

lemma lower_keys:
  "lower ''ARIMA'' = ''arima''" "lower ''PROPHET'' = ''prophet''" "lower ''NBEATS'' = ''nbeats''"
  by (simp_all add: lower_def lower_char_def)

text \<open>
  Claim C9. When every trained model has a recorded split percentage and two trained
  models recorded different ones, the comparison tab shows a single warning that lists
  each trained model with its recorded train percentage (and the test percentage, 100
  minus it), and stops: no chart and no leaderboard is produced.
\<close>

theorem comparison_rejects_mixed_splits:
  assumes recorded: "\<forall>name \<in> set AVAILABLE_MODELS_keys.
      model_trained st (lower name) = Some True \<longrightarrow> (\<exists>p. trained_train_pct st (lower name) = Some p)"
    and differ: "\<exists>a \<in> set AVAILABLE_MODELS_keys. \<exists>b \<in> set AVAILABLE_MODELS_keys.
      model_trained st (lower a) = Some True \<and> model_trained st (lower b) = Some True
      \<and> trained_train_pct st (lower a) \<noteq> trained_train_pct st (lower b)"
  shows "render_comparison_tab metrics_registry st data selected_models =
     ([WarningSplits
         (map (\<lambda>name. (name, the (trained_train_pct st (lower name)),
                        100 - the (trained_train_pct st (lower name))))
            (filter (\<lambda>name. model_trained st (lower name) = Some True) AVAILABLE_MODELS_keys))],
      Some StopException)"
proof -
  define tA where "tA = (model_trained st ''arima'' = Some True)"
  define tP where "tP = (model_trained st ''prophet'' = Some True)"
  define tN where "tN = (model_trained st ''nbeats'' = Some True)"
  have flags: "(case model_trained st ''arima'' of None \<Rightarrow> False | Some b \<Rightarrow> b) = tA"
    "(case model_trained st ''prophet'' of None \<Rightarrow> False | Some b \<Rightarrow> b) = tP"
    "(case model_trained st ''nbeats'' of None \<Rightarrow> False | Some b \<Rightarrow> b) = tN"
    by (auto simp: tA_def tP_def tN_def split: option.splits)
  have rA: "tA \<Longrightarrow> \<exists>p. trained_train_pct st ''arima'' = Some p"
    and rP: "tP \<Longrightarrow> \<exists>p. trained_train_pct st ''prophet'' = Some p"
    and rN: "tN \<Longrightarrow> \<exists>p. trained_train_pct st ''nbeats'' = Some p"
    using recorded by (simp_all add: AVAILABLE_MODELS_keys_def lower_keys tA_def tP_def tN_def)
  from differ consider
      (AP) "tA" "tP" "trained_train_pct st ''arima'' \<noteq> trained_train_pct st ''prophet''"
    | (AN) "tA" "tN" "trained_train_pct st ''arima'' \<noteq> trained_train_pct st ''nbeats''"
    | (PN) "tP" "tN" "trained_train_pct st ''prophet'' \<noteq> trained_train_pct st ''nbeats''"
    by (auto simp: AVAILABLE_MODELS_keys_def lower_keys tA_def tP_def tN_def)
  then show ?thesis
  proof cases
    case AP
    from rA[OF AP(1)] rP[OF AP(2)] obtain a p where
      v: "trained_train_pct st ''arima'' = Some a" "trained_train_pct st ''prophet'' = Some p" by blast
    with AP(3) have ne: "a \<noteq> p" by simp
    show ?thesis
    proof (cases tN)
      case True
      from rN[OF True] obtain n where "trained_train_pct st ''nbeats'' = Some n" by blast
      with v ne AP True show ?thesis
        by (simp add: render_comparison_tab_def get_all_trained_models_def get_model_results_def
            AVAILABLE_MODELS_keys_def lower_keys flags Let_def tA_def[symmetric] tP_def[symmetric] tN_def[symmetric])
    next
      case False
      with v ne AP show ?thesis
        by (simp add: render_comparison_tab_def get_all_trained_models_def get_model_results_def
            AVAILABLE_MODELS_keys_def lower_keys flags Let_def tA_def[symmetric] tP_def[symmetric] tN_def[symmetric])
    qed
  next
    case AN
    from rA[OF AN(1)] rN[OF AN(2)] obtain a n where
      v: "trained_train_pct st ''arima'' = Some a" "trained_train_pct st ''nbeats'' = Some n" by blast
    with AN(3) have ne: "a \<noteq> n" by simp
    show ?thesis
    proof (cases tP)
      case True
      from rP[OF True] obtain p where "trained_train_pct st ''prophet'' = Some p" by blast
      with v ne AN True show ?thesis
        by (auto simp add: render_comparison_tab_def get_all_trained_models_def get_model_results_def
            AVAILABLE_MODELS_keys_def lower_keys flags Let_def tA_def[symmetric] tP_def[symmetric] tN_def[symmetric])
    next
      case False
      with v ne AN show ?thesis
        by (simp add: render_comparison_tab_def get_all_trained_models_def get_model_results_def
            AVAILABLE_MODELS_keys_def lower_keys flags Let_def tA_def[symmetric] tP_def[symmetric] tN_def[symmetric])
    qed
  next
    case PN
    from rP[OF PN(1)] rN[OF PN(2)] obtain p n where
      v: "trained_train_pct st ''prophet'' = Some p" "trained_train_pct st ''nbeats'' = Some n" by blast
    with PN(3) have ne: "p \<noteq> n" by simp
    show ?thesis
    proof (cases tA)
      case True
      from rA[OF True] obtain a where "trained_train_pct st ''arima'' = Some a" by blast
      with v ne PN True show ?thesis
        by (auto simp add: render_comparison_tab_def get_all_trained_models_def get_model_results_def
            AVAILABLE_MODELS_keys_def lower_keys flags Let_def tA_def[symmetric] tP_def[symmetric] tN_def[symmetric])
    next
      case False
      with v ne PN show ?thesis
        by (simp add: render_comparison_tab_def get_all_trained_models_def get_model_results_def
            AVAILABLE_MODELS_keys_def lower_keys flags Let_def tA_def[symmetric] tP_def[symmetric] tN_def[symmetric])
    qed
  qed
qed

lemma two_trained_fields:
  "model_trained (two_trained pa ma pp mp) ''arima'' = Some True"
  "model_trained (two_trained pa ma pp mp) ''prophet'' = Some True"
  "model_trained (two_trained pa ma pp mp) ''nbeats'' = Some False"
  "trained_train_pct (two_trained pa ma pp mp) ''arima'' = Some pa"
  "trained_train_pct (two_trained pa ma pp mp) ''prophet'' = Some pp"
  "results (two_trained pa ma pp mp) ''arima'' = Some ma"
  "results (two_trained pa ma pp mp) ''prophet'' = Some mp"
  by (simp_all add: two_trained_def set_model_results_def initial_state_def lower_keys
        AVAILABLE_MODELS_keys_def Let_def)

theorem comparison_rejects_mixed_splits_witness:
  "model_trained (two_trained 80 [] 70 []) (lower ''ARIMA'') = Some True
   \<and> model_trained (two_trained 80 [] 70 []) (lower ''PROPHET'') = Some True
   \<and> model_trained (two_trained 80 [] 70 []) (lower ''NBEATS'') = Some False
   \<and> trained_train_pct (two_trained 80 [] 70 []) (lower ''ARIMA'') = Some 80
   \<and> trained_train_pct (two_trained 80 [] 70 []) (lower ''PROPHET'') = Some 70
   \<and> render_comparison_tab stub_metrics (two_trained 80 [] 70 [])
         [(0, 0), (1, 1), (2, 2), (3, 3), (4, 4)] [''ARIMA'', ''PROPHET'']
       = ([WarningSplits [(''ARIMA'', 80, 20), (''PROPHET'', 70, 30)]], Some StopException)"
proof -
  let ?st = "two_trained 80 [] 70 []"
  have h1: "\<forall>name \<in> set AVAILABLE_MODELS_keys.
      model_trained ?st (lower name) = Some True \<longrightarrow>
      (\<exists>p. trained_train_pct ?st (lower name) = Some p)"
    by (simp add: AVAILABLE_MODELS_keys_def lower_keys two_trained_fields)
  have a: "model_trained ?st (lower ''ARIMA'') = Some True"
    and b: "model_trained ?st (lower ''PROPHET'') = Some True"
    and n: "model_trained ?st (lower ''NBEATS'') = Some False"
    and c: "trained_train_pct ?st (lower ''ARIMA'') = Some 80"
    and d: "trained_train_pct ?st (lower ''PROPHET'') = Some 70"
    by (simp_all add: lower_keys two_trained_fields)
  have h2: "\<exists>a \<in> set AVAILABLE_MODELS_keys. \<exists>b \<in> set AVAILABLE_MODELS_keys.
      model_trained ?st (lower a) = Some True \<and> model_trained ?st (lower b) = Some True
      \<and> trained_train_pct ?st (lower a) \<noteq> trained_train_pct ?st (lower b)"
    by (simp add: AVAILABLE_MODELS_keys_def lower_keys two_trained_fields)
  from comparison_rejects_mixed_splits[OF h1 h2, of stub_metrics "[(0, 0), (1, 1), (2, 2), (3, 3), (4, 4)]" "[''ARIMA'', ''PROPHET'']"]
  have "render_comparison_tab stub_metrics ?st
         [(0, 0), (1, 1), (2, 2), (3, 3), (4, 4)] [''ARIMA'', ''PROPHET'']
       = ([WarningSplits [(''ARIMA'', 80, 20), (''PROPHET'', 70, 30)]], Some StopException)"
    by (simp add: AVAILABLE_MODELS_keys_def lower_keys two_trained_fields)
  with a b n c d show ?thesis by blast
qed

text \<open>
  Claim C10. The claim asks that the leaderboard of a metric completes when the stored
  value of that metric is \<^verbatim>\<open>None\<close> for one of the compared models, showing a blank for
  it. The code does not: with \<^verbatim>\<open>None\<close> for ARIMA and 2.0 for Prophet under \<^verbatim>\<open>mae\<close>,
  \<^verbatim>\<open>render_metric_leaderboard\<close> writes the heading and the description and then raises
  \<^verbatim>\<open>TypeError\<close> in \<^verbatim>\<open>min\<close>, before any card is shown.
\<close>

theorem leaderboard_raises_on_missing_metric:
  "render_metric_leaderboard ''mae''
     (the (map_of stub_metrics ''mae''))
     [(''ARIMA'', Some [(''mae'', None), (''rmse'', Some (Finite 1))]),
      (''PROPHET'', Some [(''mae'', Some (Finite 2)), (''rmse'', Some (Finite 3))])]
     [''ARIMA'', ''PROPHET'']
   = ([Write ''#### MAE'', Caption ''**Mean Absolute Error**: Average size of the errors in the same units as the data.''] :: int event list, Some TypeError)"
  by (simp add: stub_metrics_def AVAILABLE_METRICS_def render_metric_leaderboard_def then_ui_def getitem_def py_min_def py_lt_def)

text \<open>
  With a single model there is nothing to compare, and the same input fails one step
  later, when the value is formatted. When every value is present the leaderboard
  completes.
\<close>

lemma single_model_missing_metric:
  "render_metric_leaderboard ''mae''
     (the (map_of stub_metrics ''mae''))
     [(''ARIMA'', Some [(''mae'', None), (''rmse'', Some (Finite 1))])]
     [''ARIMA'']
   = ([Write ''#### MAE'', Caption ''**Mean Absolute Error**: Average size of the errors in the same units as the data.''] :: int event list, Some TypeError)"
  by (simp add: stub_metrics_def AVAILABLE_METRICS_def render_metric_leaderboard_def then_ui_def getitem_def py_min_def py_lt_def dict_get_def)

lemma leaderboard_on_present_metrics:
  "render_metric_leaderboard ''mae''
     (the (map_of stub_metrics ''mae''))
     [(''ARIMA'', Some [(''mae'', Some (Finite 4)), (''rmse'', Some (Finite 1))]),
      (''PROPHET'', Some [(''mae'', Some (Finite 2)), (''rmse'', Some (Finite 3))])]
     [''ARIMA'', ''PROPHET'']
   = ([Write ''#### MAE'', Caption ''**Mean Absolute Error**: Average size of the errors in the same units as the data.'',
       Metric \<lparr>card_label = ''ARIMA'', card_value = Finite 4,
               card_delta = Difference (Finite 4) (Finite 2), card_delta_color = ''inverse'',
               card_border = False\<rparr>,
       Metric \<lparr>card_label = ''PROPHET'', card_value = Finite 2, card_delta = Trophy,
               card_delta_color = ''off'', card_border = True\<rparr>] :: int event list, None)"
  by (simp add: stub_metrics_def AVAILABLE_METRICS_def render_metric_leaderboard_def then_ui_def getitem_def py_min_def py_lt_def dict_get_def)

text \<open>
  The whole comparison tab on two models trained with the same split, one of which has
  no value for \<^verbatim>\<open>mae\<close>: the split is accepted, the chart and the caption are shown, and
  the first leaderboard ends the run with \<^verbatim>\<open>TypeError\<close>.
\<close>

lemma comparison_crashes_on_missing_metric:
  "render_comparison_tab stub_metrics
     (two_trained 80 [(''mae'', None), (''rmse'', Some (Finite 1))]
                  80 [(''mae'', Some (Finite 2)), (''rmse'', Some (Finite 3))])
     [(0, 0), (1, 1), (2, 2), (3, 3), (4, 4)] [''ARIMA'', ''PROPHET'']
   = ([SuccessSplit 80 20,
       PlotlyChart [(0, 0), (1, 1), (2, 2), (3, 3)] [(4, 4)] [''ARIMA'', ''PROPHET''],
       Caption ''LEADERBOARD'',
       Write ''#### MAE'',
       Caption ''**Mean Absolute Error**: Average size of the errors in the same units as the data.''],
      Some TypeError)"
  by (simp add: render_comparison_tab_def get_all_trained_models_def get_model_results_def
        AVAILABLE_MODELS_keys_def lower_keys two_trained_fields Let_def
        HoldoutPctSplitter_init_def split5 plot_model_comparison_def then_ui_def
        stub_metrics_def AVAILABLE_METRICS_def render_metric_leaderboard_def getitem_def
        py_min_def py_lt_def)

section \<open>Properties of the training cache\<close>















section \<open>Timestamps of a forecast\<close>




















end
